theory Spec2Isabelle
  imports Complex_Main "HOL-Library.Sublist"
begin

section \<open>Python strings\<close>

text \<open>
  A Python \<open>str\<close> is modelled as a \<open>string\<close> whose characters are the code points
  0..255 (Latin-1). Every literal of \<open>music_agent.py\<close> that reaches the functions
  below lies in that range (the synonym spelt with c-cedilla, code point 231, is the
  only non-ASCII one), and
  \<open>str.lower\<close>, \<open>str.split\<close> and \<open>in\<close> stay inside it.
\<close>

definition char_lower :: "char \<Rightarrow> char" where
  \<comment> \<open>\<open>str.lower\<close> on one code point below 256: A-Z and the accented capitals
      0xC0-0xDE (without the multiplication sign 0xD7) move up by 32.\<close>
  "char_lower c =
     (let n = (of_char c :: nat)
      in if (65 \<le> n \<and> n \<le> 90) \<or> (192 \<le> n \<and> n \<le> 222 \<and> n \<noteq> 215)
         then char_of (n + 32) else c)"

definition lower :: "string \<Rightarrow> string" where
  "lower s = map char_lower s"

fun startswith :: "string \<Rightarrow> string \<Rightarrow> bool" where
  "startswith s [] = True"
| "startswith [] (p # ps) = False"
| "startswith (c # cs) (p # ps) = (c = p \<and> startswith cs ps)"

fun py_in :: "string \<Rightarrow> string \<Rightarrow> bool" where
  \<comment> \<open>\<open>sub in s\<close>: try every start position from the left.\<close>
  "py_in sub [] = (sub = [])"
| "py_in sub (c # cs) = (startswith (c # cs) sub \<or> py_in sub cs)"

definition endswith :: "string \<Rightarrow> string \<Rightarrow> bool" where
  "endswith s suf = startswith (rev s) (rev suf)"

definition any_term_in :: "string list \<Rightarrow> string \<Rightarrow> bool" where
  \<comment> \<open>\<open>any(term in s for term in terms)\<close>\<close>
  "any_term_in terms s = list_ex (\<lambda>t. py_in t s) terms"

section \<open>MetadataEnricher\<close>




definition infer_status :: "string \<Rightarrow> string \<Rightarrow> string" where
  "infer_status genre_name period =
     (if py_in ''extinct'' (lower genre_name) \<or> endswith period ''1900'' then ''X''
      else if any_term_in [''emerging'', ''new'', ''future''] (lower genre_name) then ''E''
      else if endswith period ''now'' then ''A''
      else ''H'')"

section \<open>HierarchyBuilder\<close>

record candidate =
  cand_name :: string
  cand_type :: string
  components :: "string list"

definition determine_level_advanced ::
  "candidate \<Rightarrow> (int \<rightharpoonup> int) \<Rightarrow> int option \<Rightarrow> int" where
  "determine_level_advanced combo level_map parent_id =
     (case parent_id of
        None \<Rightarrow> 1
      | Some pid \<Rightarrow>
          (let parent_level = (case level_map pid of Some l \<Rightarrow> l | None \<Rightarrow> 1);
               comps = components combo;
               combo_type = cand_type combo
           in if combo_type \<in> set [''era_variant'', ''regional_fusion''] \<and> length comps \<le> 2
              then min (parent_level + 1) 2
              else if combo_type \<in> set [''instrument_based'', ''electronic_variant'']
                      \<and> length comps \<le> 3
              then min (parent_level + 1) 3
              else if combo_type \<in> set [''traditional_variant'', ''micro_genre'']
                      \<and> length comps \<le> 4
              then min (parent_level + 2) 4
              else min (parent_level + 2) 5))"

section \<open>Errors and entries\<close>

datatype error = AttributeError string | IndexError | KeyError string

fun for_each :: "('a \<Rightarrow> 's \<Rightarrow> error + 's) \<Rightarrow> 'a list \<Rightarrow> 's \<Rightarrow> error + 's" where
  \<comment> \<open>A \<open>for\<close> loop whose body may raise.\<close>
  "for_each body [] s = Inr s"
| "for_each body (x # xs) s = (case body x s of Inl e \<Rightarrow> Inl e | Inr s' \<Rightarrow> for_each body xs s')"

text \<open>
  The dict \<open>generate_realistic_metadata\<close> returns, and the dataclass \<open>Genre\<close>, which
  \<open>build_hierarchy\<close> fills with \<open>id\<close>, \<open>name\<close>, \<open>level\<close>, \<open>parent_id\<close> and
  \<open>**metadata\<close>.
\<close>

record metadata =
  region :: string
  language :: string
  period :: string
  status :: string
  instruments :: string
  pioneers :: string
  artists :: string
  works :: string
  source :: string
  bpm :: string
  time_signature :: string

record genre = metadata +
  id_genre :: int
  name :: string
  level :: int
  parent_id :: "int option"

section \<open>QualityAssurance\<close>















definition py_len :: "'a list \<Rightarrow> int" where
  "py_len xs = int (length xs)"


section \<open>DuplicateDetector\<close>

definition is_space :: "char \<Rightarrow> bool" where
  \<comment> \<open>The code points below 256 that \<open>str.split()\<close> treats as whitespace.\<close>
  "is_space c = ((of_char c :: nat) \<in> set [9, 10, 11, 12, 13, 28, 29, 30, 31, 32, 133, 160])"

fun split_words :: "string \<Rightarrow> string \<Rightarrow> string list" where
  \<comment> \<open>The first argument is the word read so far.\<close>
  "split_words cur [] = (if cur = [] then [] else [cur])"
| "split_words cur (c # cs) =
     (if is_space c
      then (if cur = [] then split_words [] cs else cur # split_words [] cs)
      else split_words (cur @ [c]) cs)"

definition str_split :: "string \<Rightarrow> string list" where
  \<comment> \<open>\<open>s.split()\<close>\<close>
  "str_split s = split_words [] s"

definition synonyms :: "(string \<times> string) list" where
  \<comment> \<open>The dict literal of \<open>_are_variants\<close>; its fifth value is spelt with c-cedilla.\<close>
  "synonyms =
    [(''uk'', ''british''),
     (''british'', ''uk''),
     (''german'', ''deutsch''),
     (''deutsch'', ''german''),
     (''french'', ''fran'' @ [CHR 0xE7] @ ''ais''),
     (''american'', ''us''),
     (''us'', ''american'')]"

definition add_synonyms :: "(string \<times> string) list \<Rightarrow> string set \<Rightarrow> string set" where
  \<comment> \<open>\<open>for word in words.copy(): if word in synonyms: words.add(synonyms[word])\<close>\<close>
  "add_synonyms table words =
     words \<union> (\<lambda>word. the (map_of table word)) ` Set.filter (\<lambda>word. map_of table word \<noteq> None) words"

definition are_variants_with :: "(string \<times> string) list \<Rightarrow> string \<Rightarrow> string \<Rightarrow> bool" where
  \<comment> \<open>The body of \<open>_are_variants\<close> with its synonym dict as a parameter. The two float
      comparisons \<open>len(common) >= len(words) * 0.7\<close> are written over the integers: for a
      word count below \<open>2^40\<close> the rounded product lies strictly between the same two
      integers as \<open>7 * len(words) / 10\<close>, or, where that is an integer, is that integer
      or falls short of it by less than 1, so an integer count compares alike.\<close>
  "are_variants_with table name1 name2 =
     (let words1 = set (str_split (lower name1));
          words2 = set (str_split (lower name2));
          words1 = add_synonyms table words1;
          words2 = add_synonyms table words2;
          common = words1 \<inter> words2
      in if 10 * card common \<ge> 7 * card words1 \<or> 10 * card common \<ge> 7 * card words2
         then True else False)"

definition are_variants :: "string \<Rightarrow> string \<Rightarrow> bool" where
  "are_variants name1 name2 = are_variants_with synonyms name1 name2"

definition are_similar ::
  "(string \<Rightarrow> string \<Rightarrow> rat) option \<Rightarrow> rat \<Rightarrow> genre \<Rightarrow> genre \<Rightarrow> bool" where
  \<comment> \<open>\<open>jellyfish\<close> is the imported module or \<open>None\<close>; of the module only
      \<open>jaro_winkler\<close> is used, so the module is that function.\<close>
  "are_similar jellyfish similarity_threshold g1 g2 =
     (if lower (name g1) = lower (name g2) then True
      else if (case jellyfish of
                 None \<Rightarrow> False
               | Some jaro_winkler \<Rightarrow>
                   jaro_winkler (lower (name g1)) (lower (name g2)) > similarity_threshold)
      then True
      else if are_variants (name g1) (name g2) then True
      else False)"

definition dict_fromkeys :: "'a list \<Rightarrow> 'a list" where
  \<comment> \<open>\<open>list(dict.fromkeys(ks))\<close>: a key already in the dict keeps its place.\<close>
  "dict_fromkeys ks = fold (\<lambda>k d. if k \<in> set d then d else d @ [k]) ks []"

fun join :: "string \<Rightarrow> string list \<Rightarrow> string" where
  \<comment> \<open>\<open>sep.join(xs)\<close>\<close>
  "join sep [] = []"
| "join sep [x] = x"
| "join sep (x # y # ys) = x @ sep @ join sep (y # ys)"

fun merge_genre_group :: "genre list \<Rightarrow> error + genre" where
  "merge_genre_group [] = Inl IndexError"
| "merge_genre_group (base # others) =
     (let all_sources = fold (\<lambda>g acc. acc @ [source g]) (base # others) [];
          unique_sources = dict_fromkeys all_sources;
          combined_source = join '' / '' (take 3 unique_sources)
      in Inr \<lparr>region = region base,
              language = language base,
              period = period base,
              status = status base,
              instruments = instruments base,
              pioneers = pioneers base,
              artists = artists base,
              works = works base,
              source = combined_source,
              bpm = bpm base,
              time_signature = time_signature base,
              id_genre = id_genre base,
              name = name base,
              level = level base,
              parent_id = parent_id base\<rparr>)"

definition scan_later ::
  "(genre \<Rightarrow> genre \<Rightarrow> bool) \<Rightarrow> nat set \<Rightarrow> genre \<Rightarrow> nat \<Rightarrow> (nat \<times> genre) list
   \<Rightarrow> genre list \<times> nat set" where
  \<comment> \<open>The inner loop over \<open>enumerate(genres[i+1:], i+1)\<close>.\<close>
  "scan_later similar processed g1 i later =
     fold (\<lambda>(j, g2) (similar_group, similar_indices).
             if j \<notin> processed \<and> similar g1 g2
             then (similar_group @ [g2], insert j similar_indices)
             else (similar_group, similar_indices))
          later ([g1], {i})"

definition merge_step ::
  "(genre \<Rightarrow> genre \<Rightarrow> bool) \<Rightarrow> genre list \<Rightarrow> nat \<times> genre \<Rightarrow> genre list \<times> nat set
   \<Rightarrow> error + genre list \<times> nat set" where
  \<comment> \<open>One round of the outer loop.\<close>
  "merge_step similar genres ig st =
     (case ig of (i, g1) \<Rightarrow> case st of (merged_genres, processed) \<Rightarrow>
        if i \<in> processed then Inr (merged_genres, processed)
        else (case scan_later similar processed g1 i (enumerate (i + 1) (drop (i + 1) genres)) of
                (similar_group, similar_indices) \<Rightarrow>
                  if length similar_group > 1
                  then (case merge_genre_group similar_group of
                          Inl e \<Rightarrow> Inl e
                        | Inr merged \<Rightarrow> Inr (merged_genres @ [merged], processed \<union> similar_indices))
                  else Inr (merged_genres @ [g1], processed \<union> similar_indices)))"

definition merge_duplicates ::
  "(string \<Rightarrow> string \<Rightarrow> rat) option \<Rightarrow> rat \<Rightarrow> genre list \<Rightarrow> error + genre list" where
  "merge_duplicates jellyfish similarity_threshold genres =
     (case for_each (merge_step (are_similar jellyfish similarity_threshold) genres)
             (enumerate 0 genres) ([], {}) of
        Inl e \<Rightarrow> Inl e
      | Inr (merged_genres, processed) \<Rightarrow>
          Inr (merged_genres @ map snd (filter (\<lambda>(i, g). i \<notin> processed) (enumerate 0 genres))))"

section \<open>HierarchyBuilder.build_hierarchy\<close>

definition main_genres :: "string list" where
  "main_genres =
    [''Blues'', ''Jazz'', ''Rock'', ''Electronic'', ''Hip-Hop'', ''Classical'',
     ''Folk'', ''Country'', ''Metal'', ''Pop'', ''Reggae'', ''Soul'', ''Funk'',
     ''Punk'', ''Ambient'', ''Experimental'', ''World Music'', ''Latin'',
     ''R&B'', ''Gospel'']"

definition get_next_id :: "int \<Rightarrow> int \<times> int" where
  \<comment> \<open>From the counter to the id handed out and the counter after it.\<close>
  "get_next_id id_counter = (id_counter, id_counter + 1)"

definition make_genre :: "int \<Rightarrow> string \<Rightarrow> int \<Rightarrow> int option \<Rightarrow> metadata \<Rightarrow> genre" where
  \<comment> \<open>\<open>Genre(id=..., name=..., level=..., parent_id=..., **metadata)\<close>\<close>
  "make_genre i n l p md =
     \<lparr>region = region md, language = language md, period = period md, status = status md,
      instruments = instruments md, pioneers = pioneers md, artists = artists md,
      works = works md, source = source md, bpm = bpm md,
      time_signature = time_signature md,
      id_genre = i, name = n, level = l, parent_id = p\<rparr>"

record builder_state =
  b_genres :: "genre list"
  b_parent_map :: "string \<rightharpoonup> int"
  b_level_map :: "int \<rightharpoonup> int"
  b_id_counter :: int

type_synonym enricher = "string \<Rightarrow> string \<Rightarrow> error + metadata"

definition determine_parent ::
  "candidate \<Rightarrow> (string \<rightharpoonup> int) \<Rightarrow> genre list \<Rightarrow> error + int option" where
  \<comment> \<open>\<open>self._determine_parent(combo, parent_map, genres)\<close>. The class
      \<open>HierarchyBuilder\<close> defines \<open>__init__\<close>, \<open>get_next_id\<close>, \<open>build_hierarchy\<close> and
      \<open>_determine_level_advanced\<close>, has no base class, and nothing in the file assigns
      this attribute: looking it up on \<open>self\<close> raises before any argument is used.\<close>
  "determine_parent combo parent_map genres = Inl (AttributeError ''_determine_parent'')"

definition seed_main :: "enricher \<Rightarrow> string \<Rightarrow> builder_state \<Rightarrow> error + builder_state" where
  \<comment> \<open>The body of \<open>for main_genre in main_genres\<close>.\<close>
  "seed_main enrich main_genre st =
     (case enrich main_genre ''main'' of
        Inl e \<Rightarrow> Inl e
      | Inr md \<Rightarrow>
          (case get_next_id (b_id_counter st) of
             (i, counter) \<Rightarrow>
               let g = make_genre i main_genre 1 None md
               in Inr \<lparr>b_genres = b_genres st @ [g],
                       b_parent_map = (b_parent_map st)(main_genre \<mapsto> id_genre g),
                       b_level_map = (b_level_map st)(id_genre g \<mapsto> 1),
                       b_id_counter = counter\<rparr>))"

definition add_combo :: "enricher \<Rightarrow> candidate \<Rightarrow> builder_state \<Rightarrow> error + builder_state" where
  \<comment> \<open>The body of \<open>for combo in sorted_combos\<close>.\<close>
  "add_combo enrich combo st =
     (case determine_parent combo (b_parent_map st) (b_genres st) of
        Inl e \<Rightarrow> Inl e
      | Inr resolved \<Rightarrow>
          (let lvl = determine_level_advanced combo (b_level_map st) resolved
           in if lvl \<le> 5
              then (case enrich (cand_name combo) (cand_type combo) of
                      Inl e \<Rightarrow> Inl e
                    | Inr md \<Rightarrow>
                        (case get_next_id (b_id_counter st) of
                           (i, counter) \<Rightarrow>
                             let g = make_genre i (take 100 (cand_name combo)) lvl resolved md
                             in Inr \<lparr>b_genres = b_genres st @ [g],
                                     b_parent_map = (b_parent_map st)(cand_name combo \<mapsto> id_genre g),
                                     b_level_map = (b_level_map st)(id_genre g \<mapsto> lvl),
                                     b_id_counter = counter\<rparr>))
              else Inr st))"

definition build_hierarchy ::
  "enricher \<Rightarrow> int \<Rightarrow> candidate list \<Rightarrow> error + genre list \<times> int" where
  \<comment> \<open>The second argument and the second component of the result are \<open>self.id_counter\<close>
      before and after the call. \<open>sort_key\<close> is stable, as \<open>sorted\<close> is.\<close>
  "build_hierarchy enrich id_counter genre_combinations =
     (case for_each (seed_main enrich) main_genres
             \<lparr>b_genres = [], b_parent_map = Map.empty, b_level_map = Map.empty,
              b_id_counter = id_counter\<rparr> of
        Inl e \<Rightarrow> Inl e
      | Inr st \<Rightarrow>
          (let sorted_combos = sort_key (\<lambda>x. length (components x)) genre_combinations
           in case for_each (add_combo enrich) sorted_combos st of
                Inl e \<Rightarrow> Inl e
              | Inr st' \<Rightarrow> Inr (b_genres st', b_id_counter st')))"

definition sample_metadata :: metadata where
  \<comment> \<open>What an attribute function could return, for the examples below.\<close>
  "sample_metadata =
     \<lparr>region = ''Global'', language = ''Multi'', period = ''1950-now'', status = ''A'',
      instruments = ''Various'', pioneers = [], artists = [], works = [], source = [],
      bpm = ''80-120'', time_signature = ''4/4''\<rparr>"

section \<open>DynamicGenreGenerator\<close>

record data_sources =
  ds_regions :: "string list"
  ds_eras :: "string list"
  ds_instruments :: "string list"
  ds_base_genres :: "string list"

definition default_data_sources :: data_sources where
  \<comment> \<open>\<open>DEFAULT_CONFIG['data_sources']\<close>; code points 252 and 196 are u- and A-umlaut.\<close>
  "default_data_sources =
     \<lparr>ds_regions =
        [''USA'', ''UK'', ''Deutschland'', ''Frankreich'', ''Italien'', ''Spanien'',
         ''Japan'', ''Korea'', ''China'', ''Indien'', ''Brasilien'', ''Mexiko'',
         ''Argentinien'', ''S'' @ [CHR 0xFC] @ ''dafrika'', ''Nigeria'',
         [CHR 0xC4] @ ''gypten'', ''Australien'',
         ''Kanada'', ''Russland'', ''T'' @ [CHR 0xFC] @ ''rkei'', ''Polen'', ''Niederlande'',
         ''Schweden'', ''Norwegen'', ''Finnland'', ''Island'', ''Irland''],
      ds_eras =
        [''Prehistoric'', ''Ancient'', ''Medieval'', ''Renaissance'', ''Baroque'',
         ''Classical'', ''Romantic'', ''Modern'', ''Contemporary'', ''Digital''],
      ds_instruments =
        [''Guitar/Gitarre'', ''Piano/Klavier'', ''Drums/Schlagzeug'',
         ''Synthesizer'', ''Violin/Violine'', ''Saxophone/Saxophon'',
         ''Trumpet/Trompete'', ''Electronic/Elektronisch'', ''Traditional''],
      ds_base_genres =
        [''Blues'', ''Jazz'', ''Rock'', ''Electronic'', ''Hip-Hop'',
         ''Classical'', ''Folk'', ''Country'', ''Metal'', ''Pop'', ''Reggae'',
         ''Soul'', ''Funk'', ''Punk'', ''Ambient'', ''Experimental'']\<rparr>"

datatype piece = Lit string | Field string

fun format_pattern :: "piece list \<Rightarrow> (string \<times> string) list \<Rightarrow> error + string" where
  \<comment> \<open>\<open>pattern.format(**kwargs)\<close> for a pattern cut into its literal texts and its
      \<open>{field}\<close> places; a field without keyword argument raises.\<close>
  "format_pattern [] kwargs = Inr []"
| "format_pattern (Lit s # ps) kwargs =
     (case format_pattern ps kwargs of Inl e \<Rightarrow> Inl e | Inr r \<Rightarrow> Inr (s @ r))"
| "format_pattern (Field f # ps) kwargs =
     (case map_of kwargs f of
        None \<Rightarrow> Inl (KeyError f)
      | Some v \<Rightarrow> (case format_pattern ps kwargs of Inl e \<Rightarrow> Inl e | Inr r \<Rightarrow> Inr (v @ r)))"

definition regional_fusion_patterns :: "piece list list" where
  \<comment> \<open>\<open>self.genre_patterns['regional_fusion']\<close>\<close>
  "regional_fusion_patterns =
    [[Field ''region1'', Lit '' '', Field ''region2'', Lit '' Fusion''],
     [Field ''region1'', Lit ''-'', Field ''region2'', Lit '' '', Field ''base'', Lit '' Hybrid''],
     [Lit ''Trans-'', Field ''region1'', Lit '' '', Field ''base''],
     [Field ''region1'', Lit '' meets '', Field ''region2'', Lit '' '', Field ''base'']]"

definition era_genre_patterns :: "piece list list" where
  \<comment> \<open>\<open>self.genre_patterns['era_genre']\<close>\<close>
  "era_genre_patterns =
    [[Field ''era'', Lit '' '', Field ''base''],
     [Lit ''Neo-'', Field ''era'', Lit '' '', Field ''base''],
     [Field ''era'', Lit '' Revival '', Field ''base''],
     [Lit ''Post-'', Field ''era'', Lit '' '', Field ''base'']]"

definition instrument_based_patterns :: "piece list list" where
  \<comment> \<open>\<open>self.genre_patterns['instrument_based']\<close>\<close>
  "instrument_based_patterns =
    [[Field ''instrument'', Lit '' '', Field ''base''],
     [Lit ''Electric '', Field ''instrument'', Lit '' '', Field ''base''],
     [Lit ''Acoustic '', Field ''instrument'', Lit '' '', Field ''base''],
     [Field ''instrument'', Lit ''-driven '', Field ''base'']]"

definition modifiers_electronic :: "string list" where
  "modifiers_electronic = [''Synth'', ''Digital'', ''Cyber'', ''Electro'', ''Techno'']"

definition modifiers_traditional :: "string list" where
  "modifiers_traditional = [''Folk'', ''Traditional'', ''Ethnic'', ''Native'', ''Indigenous'']"

definition modifiers_modern :: "string list" where
  "modifiers_modern = [''New'', ''Modern'', ''Contemporary'', ''Post'', ''Neo'']"

datatype 's flow = Continue 's | Return 's | Raise error

fun for_flow :: "('x \<Rightarrow> 's \<Rightarrow> 's flow) \<Rightarrow> 'x list \<Rightarrow> 's \<Rightarrow> 's flow" where
  \<comment> \<open>A \<open>for\<close> loop whose body may \<open>return\<close> from the function or raise.\<close>
  "for_flow body [] s = Continue s"
| "for_flow body (x # xs) s =
     (case body x s of
        Continue s' \<Rightarrow> for_flow body xs s'
      | Return r \<Rightarrow> Return r
      | Raise e \<Rightarrow> Raise e)"

fun combinations2 :: "'a list \<Rightarrow> ('a \<times> 'a) list" where
  \<comment> \<open>\<open>itertools.combinations(xs, 2)\<close>\<close>
  "combinations2 [] = []"
| "combinations2 (x # xs) = map (Pair x) xs @ combinations2 xs"

fun split_sep :: "char \<Rightarrow> string \<Rightarrow> string list" where
  \<comment> \<open>\<open>s.split(sep)\<close> for a separator of one character\<close>
  "split_sep sep [] = [[]]"
| "split_sep sep (c # cs) =
     (if c = sep then [] # split_sep sep cs
      else (case split_sep sep cs of [] \<Rightarrow> [[c]] | w # ws \<Rightarrow> (c # w) # ws))"

definition py_slice_to :: "'a list \<Rightarrow> int \<Rightarrow> 'a list" where
  \<comment> \<open>\<open>xs[:n]\<close>; a negative \<open>n\<close> counts from the end.\<close>
  "py_slice_to xs n = (if 0 \<le> n then take (nat n) xs else take (length xs - nat (- n)) xs)"

definition regional_fusions :: "data_sources \<Rightarrow> int \<Rightarrow> candidate list \<Rightarrow> candidate list flow" where
  \<comment> \<open>Strategy 1, the only one that tests \<open>limit\<close> inside its loops.\<close>
  "regional_fusions ds limit generated =
     for_flow (\<lambda>(r1, r2).
       for_flow (\<lambda>base.
         for_flow (\<lambda>pattern generated.
           case format_pattern pattern [(''region1'', r1), (''region2'', r2), (''base'', base)] of
             Inl e \<Rightarrow> Raise e
           | Inr n \<Rightarrow>
               (let generated = generated @
                      [\<lparr>cand_name = n, cand_type = ''regional_fusion'',
                        components = [r1, r2, base]\<rparr>]
                in if py_len generated \<ge> limit then Return generated else Continue generated))
         (take 2 regional_fusion_patterns))
       (take 10 (ds_base_genres ds)))
     (combinations2 (take 15 (ds_regions ds))) generated"

definition era_variants :: "data_sources \<Rightarrow> candidate list \<Rightarrow> candidate list flow" where
  \<comment> \<open>Strategy 2\<close>
  "era_variants ds generated =
     for_flow (\<lambda>era.
       for_flow (\<lambda>base.
         for_flow (\<lambda>pattern generated.
           case format_pattern pattern [(''era'', era), (''base'', base)] of
             Inl e \<Rightarrow> Raise e
           | Inr n \<Rightarrow>
               Continue (generated @
                 [\<lparr>cand_name = n, cand_type = ''era_variant'', components = [era, base]\<rparr>]))
         era_genre_patterns)
       (ds_base_genres ds))
     (ds_eras ds) generated"

definition instrument_variants :: "data_sources \<Rightarrow> candidate list \<Rightarrow> candidate list flow" where
  \<comment> \<open>Strategy 3\<close>
  "instrument_variants ds generated =
     for_flow (\<lambda>instrument.
       for_flow (\<lambda>base.
         for_flow (\<lambda>pattern generated.
           case split_sep CHR ''/'' instrument of
             [] \<Rightarrow> Raise IndexError
           | first # others \<Rightarrow>
               (case format_pattern pattern [(''instrument'', first), (''base'', base)] of
                  Inl e \<Rightarrow> Raise e
                | Inr n \<Rightarrow>
                    Continue (generated @
                      [\<lparr>cand_name = n, cand_type = ''instrument_based'',
                        components = [instrument, base]\<rparr>])))
         (take 2 instrument_based_patterns))
       (take 10 (ds_base_genres ds)))
     (take 10 (ds_instruments ds)) generated"

definition modifier_variants :: "data_sources \<Rightarrow> candidate list \<Rightarrow> candidate list flow" where
  \<comment> \<open>Strategy 4\<close>
  "modifier_variants ds generated =
     for_flow (\<lambda>base generated.
       case for_flow (\<lambda>modifier generated.
              Continue (generated @
                [\<lparr>cand_name = modifier @ '' '' @ base, cand_type = ''electronic_variant'',
                  components = [modifier, base]\<rparr>]))
            modifiers_electronic generated of
         Continue generated \<Rightarrow>
           for_flow (\<lambda>modifier.
             for_flow (\<lambda>region generated.
               Continue (generated @
                 [\<lparr>cand_name = region @ '' '' @ modifier @ '' '' @ base,
                   cand_type = ''traditional_variant'', components = [region, modifier, base]\<rparr>]))
             (take 10 (ds_regions ds)))
           modifiers_traditional generated
       | Return r \<Rightarrow> Return r
       | Raise e \<Rightarrow> Raise e)
     (ds_base_genres ds) generated"

record 'r random_source =
  next_random :: "'r \<Rightarrow> rat \<times> 'r"
  next_below :: "nat \<Rightarrow> 'r \<Rightarrow> nat \<times> 'r"

text \<open>
  The module \<open>random\<close> is a state \<open>'r\<close> with two draws: \<open>next_random\<close> is
  \<open>random.random()\<close>, and \<open>next_below n\<close> is the index below \<open>n\<close> that
  \<open>random.choice\<close> draws for a sequence of length \<open>n\<close> (reduced modulo \<open>n\<close> below, so
  that any function can stand for it).
\<close>

definition choice :: "'r random_source \<Rightarrow> 'a list \<Rightarrow> 'r \<Rightarrow> error + 'a \<times> 'r" where
  \<comment> \<open>\<open>random.choice(xs)\<close>, which raises on an empty sequence\<close>
  "choice rs xs r =
     (if xs = [] then Inl IndexError
      else (case next_below rs (length xs) r of (k, r') \<Rightarrow> Inr (xs ! (k mod length xs), r')))"

definition maybe_choice ::
  "'r random_source \<Rightarrow> rat \<Rightarrow> string list \<Rightarrow> string list \<times> 'r \<Rightarrow> error + string list \<times> 'r" where
  \<comment> \<open>\<open>if random.random() > p: components.append(random.choice(xs))\<close>\<close>
  "maybe_choice rs p xs st =
     (case st of (comps, r) \<Rightarrow>
        case next_random rs r of (x, r1) \<Rightarrow>
          if x > p
          then (case choice rs xs r1 of Inl e \<Rightarrow> Inl e | Inr (c, r2) \<Rightarrow> Inr (comps @ [c], r2))
          else Inr (comps, r1))"

definition micro_genre ::
  "'r random_source \<Rightarrow> data_sources \<Rightarrow> nat \<Rightarrow> candidate list \<times> 'r \<Rightarrow> (candidate list \<times> 'r) flow" where
  \<comment> \<open>The body of the loop of strategy 5.\<close>
  "micro_genre rs ds i st =
     (case st of (generated, r) \<Rightarrow>
        case maybe_choice rs (1 / 2) modifiers_modern ([], r) of
          Inl e \<Rightarrow> Raise e
        | Inr st1 \<Rightarrow>
        case maybe_choice rs (3 / 10) (take 20 (ds_regions ds)) st1 of
          Inl e \<Rightarrow> Raise e
        | Inr st2 \<Rightarrow>
        case maybe_choice rs (2 / 5) modifiers_electronic st2 of
          Inl e \<Rightarrow> Raise e
        | Inr (comps3, r3) \<Rightarrow>
        case choice rs (ds_base_genres ds) r3 of
          Inl e \<Rightarrow> Raise e
        | Inr (base, r4) \<Rightarrow>
            (let comps = comps3 @ [base]
             in Continue (generated @
                  [\<lparr>cand_name = join '' '' comps, cand_type = ''micro_genre'',
                    components = comps\<rparr>], r4)))"

definition generate_combinations ::
  "'r random_source \<Rightarrow> data_sources \<Rightarrow> int \<Rightarrow> 'r \<Rightarrow> error + candidate list \<times> 'r" where
  \<comment> \<open>The last argument and the second component of the result are the state of
      \<open>random\<close> before and after the call.\<close>
  "generate_combinations rs ds limit r =
     (case regional_fusions ds limit [] of
        Raise e \<Rightarrow> Inl e
      | Return generated \<Rightarrow> Inr (generated, r)
      | Continue generated \<Rightarrow>
     (case era_variants ds generated of
        Raise e \<Rightarrow> Inl e
      | Return generated \<Rightarrow> Inr (generated, r)
      | Continue generated \<Rightarrow>
     (case instrument_variants ds generated of
        Raise e \<Rightarrow> Inl e
      | Return generated \<Rightarrow> Inr (generated, r)
      | Continue generated \<Rightarrow>
     (case modifier_variants ds generated of
        Raise e \<Rightarrow> Inl e
      | Return generated \<Rightarrow> Inr (generated, r)
      | Continue generated \<Rightarrow>
     (case for_flow (micro_genre rs ds)
             [0..<nat (min 3000 (limit - py_len generated))] (generated, r) of
        Raise e \<Rightarrow> Inl e
      | Return (generated, r') \<Rightarrow> Inr (generated, r')
      | Continue (generated, r') \<Rightarrow> Inr (py_slice_to generated limit, r'))))))"

section \<open>Star clustering, as a recursion on the list\<close>

text \<open>
  The definitions of this section are not in the source. They describe what the index loop of
  \<open>merge_duplicates\<close> computes: the first unprocessed entry collects the later
  unprocessed entries similar to it, and the loop goes on with the others.
\<close>

definition group_leader :: "genre \<Rightarrow> genre list \<Rightarrow> genre" where
  "group_leader g similar_group =
     (if similar_group = [] then g
      else (case merge_genre_group (g # similar_group) of Inr merged \<Rightarrow> merged | Inl e \<Rightarrow> g))"

fun star_merge :: "(genre \<Rightarrow> genre \<Rightarrow> bool) \<Rightarrow> genre list \<Rightarrow> genre list" where
  "star_merge similar [] = []"
| "star_merge similar (g # gs) =
     group_leader g (filter (similar g) gs) # star_merge similar (filter (\<lambda>h. \<not> similar g h) gs)"

definition unprocessed :: "nat set \<Rightarrow> (nat \<times> genre) list \<Rightarrow> genre list" where
  "unprocessed processed later = map snd (filter (\<lambda>(j, g). j \<notin> processed) later)"

section \<open>Sample entries\<close>

definition sample_entry :: "int \<Rightarrow> string \<Rightarrow> string \<Rightarrow> genre" where
  \<comment> \<open>An entry as \<open>build_hierarchy\<close> would make it, for the examples below.\<close>
  "sample_entry i n src =
     \<lparr>region = ''Global'', language = ''Multi'', period = ''1950-now'', status = ''A'',
      instruments = ''Various'', pioneers = [], artists = [], works = [], source = src,
      bpm = ''80-120'', time_signature = ''4/4'',
      id_genre = i, name = n, level = 2, parent_id = Some 5\<rparr>"


section \<open>Properties of the string model\<close>

lemma startswith_prefix: "startswith s p = prefix p s"
  by (induction s p rule: startswith.induct) auto

lemma py_in_sublist: "py_in sub s = sublist sub s"
proof (induction s)
  case Nil
  then show ?case by auto
next
  case (Cons c cs)
  then show ?case
    by (cases sub) (auto simp: startswith_prefix sublist_code)
qed

lemma endswith_suffix: "endswith s suf = suffix suf s"
  by (simp add: endswith_def startswith_prefix suffix_to_prefix)

lemma any_term_in_iff: "any_term_in ts s = (\<exists>t \<in> set ts. sublist t s)"
  by (simp add: any_term_in_def list_ex_iff py_in_sublist)

section \<open>Hierarchy levels\<close>

text \<open>
  C10 (amended). \<open>_determine_level_advanced\<close> returns 1 when no parent is resolved, and
  never more than 5, whatever the level map holds, so the \<open>level <= 5\<close> test of
  \<open>build_hierarchy\<close> never drops a candidate. The result is at least 1 as soon as the
  level recorded for the resolved parent is not negative (an id missing from the map
  counts as level 1).
\<close>

theorem determine_level_advanced_range:
  "determine_level_advanced combo level_map None = 1
   \<and> determine_level_advanced combo level_map resolved \<le> 5
   \<and> ((\<forall>pid l. resolved = Some pid \<and> level_map pid = Some l \<longrightarrow> 0 \<le> l)
        \<longrightarrow> 1 \<le> determine_level_advanced combo level_map resolved)"
  by (auto simp: determine_level_advanced_def Let_def split: option.splits)

text \<open>
  With a negative level recorded for the parent the result falls below 1: parent level
  \<open>-3\<close> gives \<open>min (-3 + 1) 2 = -2\<close>.
\<close>

theorem determine_level_advanced_counterexample:
  "\<not> (1 \<le> determine_level_advanced
            \<lparr>cand_name = ''Neo-Baroque Jazz'', cand_type = ''era_variant'', components = [''Baroque'', ''Jazz'']\<rparr>
            (Map.empty(7 \<mapsto> -3)) (Some 7))"
  by (simp add: determine_level_advanced_def)

text \<open>The range at a parent of level 1.\<close>

theorem determine_level_advanced_range_witness:
  "determine_level_advanced
      \<lparr>cand_name = ''Neo-Baroque Jazz'', cand_type = ''era_variant'', components = [''Baroque'', ''Jazz'']\<rparr>
      (Map.empty(7 \<mapsto> 1)) (Some 7) \<in> {1..5}"
  using determine_level_advanced_range [of
      "\<lparr>cand_name = ''Neo-Baroque Jazz'', cand_type = ''era_variant'', components = [''Baroque'', ''Jazz'']\<rparr>"
      "Map.empty(7 \<mapsto> 1)" "Some 7"]
  by simp

section \<open>Period inference\<close>





section \<open>Status inference\<close>

text \<open>
  C7. \<open>_infer_status\<close> checks its rules in priority order, the first match winning:
  \<open>X\<close> when the lower-cased name contains "extinct" or the period ends with "1900";
  else \<open>E\<close> when the name contains "emerging", "new" or "future"; else \<open>A\<close> when the
  period ends with "now"; else \<open>H\<close>. The result is one of the four status symbols.
\<close>

theorem infer_status_priority:
  "infer_status genre_name per =
     (if sublist ''extinct'' (lower genre_name) \<or> suffix ''1900'' per then ''X''
      else if \<exists>t \<in> set [''emerging'', ''new'', ''future'']. sublist t (lower genre_name) then ''E''
      else if suffix ''now'' per then ''A''
      else ''H'')
   \<and> infer_status genre_name per \<in> set [''X'', ''E'', ''A'', ''H'']"
  unfolding infer_status_def any_term_in_iff py_in_sublist endswith_suffix by simp

text \<open>One input for each branch, the first two showing that \<open>X\<close> wins over \<open>E\<close>.\<close>

theorem infer_status_priority_witness:
  "infer_status ''New Wave Extinct'' ''1950-now'' = ''X''
   \<and> infer_status ''Future Bass'' ''1820-1900'' = ''X''
   \<and> infer_status ''Future Bass'' ''1990-now'' = ''E''
   \<and> infer_status ''Acid Jazz'' ''1990-now'' = ''A''
   \<and> infer_status ''Acid Jazz'' ''1900-2000'' = ''H''"
proof -
  have 1: "(if sublist ''extinct'' (lower ''New Wave Extinct'') \<or> suffix ''1900'' ''1950-now'' then ''X''
      else if \<exists>t \<in> set [''emerging'', ''new'', ''future'']. sublist t (lower ''New Wave Extinct'') then ''E''
      else if suffix ''now'' ''1950-now'' then ''A''
      else ''H'') = ''X''" by code_simp
  have 2: "(if sublist ''extinct'' (lower ''Future Bass'') \<or> suffix ''1900'' ''1820-1900'' then ''X''
      else if \<exists>t \<in> set [''emerging'', ''new'', ''future'']. sublist t (lower ''Future Bass'') then ''E''
      else if suffix ''now'' ''1820-1900'' then ''A''
      else ''H'') = ''X''" by code_simp
  have 3: "(if sublist ''extinct'' (lower ''Future Bass'') \<or> suffix ''1900'' ''1990-now'' then ''X''
      else if \<exists>t \<in> set [''emerging'', ''new'', ''future'']. sublist t (lower ''Future Bass'') then ''E''
      else if suffix ''now'' ''1990-now'' then ''A''
      else ''H'') = ''E''" by code_simp
  have 4: "(if sublist ''extinct'' (lower ''Acid Jazz'') \<or> suffix ''1900'' ''1990-now'' then ''X''
      else if \<exists>t \<in> set [''emerging'', ''new'', ''future'']. sublist t (lower ''Acid Jazz'') then ''E''
      else if suffix ''now'' ''1990-now'' then ''A''
      else ''H'') = ''A''" by code_simp
  have 5: "(if sublist ''extinct'' (lower ''Acid Jazz'') \<or> suffix ''1900'' ''1900-2000'' then ''X''
      else if \<exists>t \<in> set [''emerging'', ''new'', ''future'']. sublist t (lower ''Acid Jazz'') then ''E''
      else if suffix ''now'' ''1900-2000'' then ''A''
      else ''H'') = ''H''" by code_simp
  show ?thesis
    using infer_status_priority [of "''New Wave Extinct''" "''1950-now''"]
      infer_status_priority [of "''Future Bass''" "''1820-1900''"]
      infer_status_priority [of "''Future Bass''" "''1990-now''"]
      infer_status_priority [of "''Acid Jazz''" "''1990-now''"]
      infer_status_priority [of "''Acid Jazz''" "''1900-2000''"]
    unfolding 1 2 3 4 5 by blast
qed

section \<open>Validation\<close>




section \<open>Merging one group\<close>

lemma remdups_skip_mem: "k \<in> set ys \<Longrightarrow> remdups (xs @ k # ys) = remdups (xs @ ys)"
  by (induction xs) simp_all

lemma remdups_rev_mem:
  "k \<in> set d \<Longrightarrow> rev (remdups (rev (d @ k # ks))) = rev (remdups (rev (d @ ks)))"
  by (simp add: remdups_skip_mem)

lemma fold_fromkeys:
  "distinct d \<Longrightarrow>
   fold (\<lambda>k d. if k \<in> set d then d else d @ [k]) ks d = rev (remdups (rev (d @ ks)))"
proof (induction ks arbitrary: d)
  case Nil
  then show ?case by (simp add: distinct_remdups_id)
next
  case (Cons k ks)
  show ?case
  proof (cases "k \<in> set d")
    case True
    then show ?thesis using Cons by (simp add: remdups_rev_mem del: rev_append)
  next
    case False
    then have "distinct (d @ [k])" using Cons.prems by simp
    from Cons.IH [OF this] False show ?thesis by simp
  qed
qed

lemma dict_fromkeys_first_occurrences: "dict_fromkeys ks = rev (remdups (rev ks))"
  using fold_fromkeys [of "[]" ks] by (simp add: dict_fromkeys_def)

lemma fold_collect: "fold (\<lambda>g acc. acc @ [f g]) gs acc0 = acc0 @ map f gs"
  by (induction gs arbitrary: acc0) simp_all

text \<open>
  C5. For a merge group with first member \<open>base\<close>, \<open>_merge_genre_group\<close> returns
  \<open>base\<close> with every field unchanged except \<open>source\<close>, which becomes the first three
  distinct sources of the group, in the order of their first appearance, joined by
  \<open>" / "\<close>. (\<open>rev (remdups (rev xs))\<close> keeps the first occurrence of every element of
  \<open>xs\<close>, in the order of \<open>xs\<close>.)
\<close>

theorem merge_genre_group_keeps_first:
  "merge_genre_group (base # others) =
     Inr (base\<lparr>source :=
            join '' / '' (take 3 (rev (remdups (rev (map source (base # others))))))\<rparr>)"
  by (simp add: Let_def fold_collect dict_fromkeys_first_occurrences del: remdups.simps)

text \<open>Five members with four distinct sources: the fourth source is cut off.\<close>

theorem merge_genre_group_keeps_first_witness:
  "merge_genre_group
     [sample_entry 1 ''UK Hip-Hop'' ''s1'', sample_entry 2 ''British Hip-Hop'' ''s2'',
      sample_entry 3 ''uk hip-hop'' ''s1'', sample_entry 4 ''UK  Hip-Hop'' ''s3'',
      sample_entry 5 ''Uk Hip-Hop'' ''s4'']
   = Inr ((sample_entry 1 ''UK Hip-Hop'' ''s1'')\<lparr>source := ''s1 / s2 / s3''\<rparr>)"
  using merge_genre_group_keeps_first [of "sample_entry 1 ''UK Hip-Hop'' ''s1''"
     "[sample_entry 2 ''British Hip-Hop'' ''s2'',
      sample_entry 3 ''uk hip-hop'' ''s1'', sample_entry 4 ''UK  Hip-Hop'' ''s3'',
      sample_entry 5 ''Uk Hip-Hop'' ''s4'']"]
  by (simp add: sample_entry_def)

section \<open>Similarity\<close>





text \<open>
  C3. The synonym dict of \<open>_are_variants\<close> maps "french" to its French spelling and has
  no entry back, while its three other pairs go both ways. For the French spelling
  followed by the word "x", against "french", the code finds one common word out of two
  on either side and answers False; with the missing entry added, as the claim describes
  the table, two of the three words of the first name are common to both and the answer
  is True.
\<close>

theorem are_variants_one_way_synonym:
  "\<not> are_variants (''fran'' @ [CHR 0xE7] @ ''ais x'') ''french''
   \<and> are_variants_with (synonyms @ [(''fran'' @ [CHR 0xE7] @ ''ais'', ''french'')])
        (''fran'' @ [CHR 0xE7] @ ''ais x'') ''french''"
  by code_simp

section \<open>Duplicate merging\<close>

lemma fold_scan:
  "fold (\<lambda>(j, g2) (grp, idxs).
           if j \<notin> P \<and> sim g1 g2 then (grp @ [g2], insert j idxs) else (grp, idxs))
        later (grp0, idxs0)
   = (grp0 @ map snd (filter (\<lambda>(j, g2). j \<notin> P \<and> sim g1 g2) later),
      idxs0 \<union> fst ` set (filter (\<lambda>(j, g2). j \<notin> P \<and> sim g1 g2) later))"
proof (induction later arbitrary: grp0 idxs0)
  case Nil
  then show ?case by simp
next
  case (Cons p later)
  obtain j g2 where p: "p = (j, g2)" by (cases p)
  show ?case
  proof (cases "j \<notin> P \<and> sim g1 g2")
    case True
    then show ?thesis using Cons [of "grp0 @ [g2]" "insert j idxs0"] p by simp
  next
    case False
    then show ?thesis using Cons [of grp0 idxs0] p by auto
  qed
qed

lemma scan_later_eq:
  "scan_later sim P g1 i later
   = (g1 # map snd (filter (\<lambda>(j, g2). j \<notin> P \<and> sim g1 g2) later),
      insert i (fst ` set (filter (\<lambda>(j, g2). j \<notin> P \<and> sim g1 g2) later)))"
  by (simp add: scan_later_def fold_scan)

lemma similar_of_unprocessed:
  "map snd (filter (\<lambda>(j, g2). j \<notin> P \<and> sim g1 g2) later) = filter (sim g1) (unprocessed P later)"
  by (induction later) (auto simp: unprocessed_def)

lemma enumerate_unique:
  "(j, a) \<in> set (enumerate n xs) \<Longrightarrow> (j, b) \<in> set (enumerate n xs) \<Longrightarrow> a = b"
  by (auto simp: in_set_enumerate_eq)

lemma unprocessed_after_group:
  assumes "later = enumerate (Suc i) xs"
  shows "unprocessed (P \<union> insert i (fst ` set (filter (\<lambda>(j, g2). j \<notin> P \<and> sim g1 g2) later))) later
         = filter (\<lambda>h. \<not> sim g1 h) (unprocessed P later)"
proof -
  let ?J = "fst ` set (filter (\<lambda>(j, g2). j \<notin> P \<and> sim g1 g2) later)"
  have "filter (\<lambda>(j, g). j \<notin> P \<union> insert i ?J) later
        = filter (\<lambda>(j, g). j \<notin> P \<and> \<not> sim g1 g) later"
  proof (rule filter_cong [OF refl])
    fix p assume p: "p \<in> set later"
    obtain j g where jg: "p = (j, g)" by (cases p)
    have "j \<noteq> i" using p jg assms by (auto simp: in_set_enumerate_eq)
    moreover have "j \<in> ?J \<longleftrightarrow> j \<notin> P \<and> sim g1 g"
    proof
      assume "j \<in> ?J"
      then obtain g' where g': "(j, g') \<in> set later" "j \<notin> P" "sim g1 g'" by force
      with p jg assms have "g' = g" by (auto dest: enumerate_unique)
      with g' show "j \<notin> P \<and> sim g1 g" by simp
    next
      assume "j \<notin> P \<and> sim g1 g"
      with p jg show "j \<in> ?J" by force
    qed
    ultimately show "(case p of (j, g) \<Rightarrow> j \<notin> P \<union> insert i ?J)
                   = (case p of (j, g) \<Rightarrow> j \<notin> P \<and> \<not> sim g1 g)"
      using jg by auto
  qed
  then show ?thesis
    by (simp add: unprocessed_def filter_map comp_def case_prod_unfold)
qed

lemma group_leader_name: "name (group_leader g similar_group) = name g"
  by (simp add: group_leader_def Let_def)

lemma merge_step_processed:
  "i \<in> P \<Longrightarrow> merge_step sim genres (i, g) (merged, P) = Inr (merged, P)"
  by (simp add: merge_step_def)

lemma merge_step_leader:
  assumes "i \<notin> P" and "drop (Suc i) genres = rest"
  shows "merge_step sim genres (i, g) (merged, P)
         = Inr (merged @ [group_leader g (filter (sim g) (unprocessed P (enumerate (Suc i) rest)))],
                P \<union> insert i (fst ` set (filter (\<lambda>(j, g2). j \<notin> P \<and> sim g g2)
                                          (enumerate (Suc i) rest))))"
proof (cases "filter (sim g) (unprocessed P (enumerate (Suc i) rest)) = []")
  case True
  then show ?thesis
    using assms
    by (simp add: merge_step_def scan_later_eq similar_of_unprocessed group_leader_def)
next
  case False
  then show ?thesis
    using assms
    by (simp add: merge_step_def scan_later_eq similar_of_unprocessed group_leader_def Let_def)
qed

lemma merge_loop:
  "drop i genres = ys \<Longrightarrow>
   \<exists>P'. for_each (merge_step sim genres) (enumerate i ys) (merged, P)
           = Inr (merged @ star_merge sim (unprocessed P (enumerate i ys)), P')
         \<and> P \<subseteq> P' \<and> {i..<i + length ys} \<subseteq> P'"
proof (induction ys arbitrary: i merged P)
  case Nil
  then show ?case by (simp add: unprocessed_def)
next
  case (Cons g rest)
  have rest: "drop (Suc i) genres = rest"
    using Cons.prems by (metis drop_Suc tl_drop list.sel(3))
  show ?case
  proof (cases "i \<in> P")
    case True
    from Cons.IH [OF rest, of merged P] obtain P' where
      P': "for_each (merge_step sim genres) (enumerate (Suc i) rest) (merged, P)
             = Inr (merged @ star_merge sim (unprocessed P (enumerate (Suc i) rest)), P')"
          "P \<subseteq> P'" "{Suc i..<Suc i + length rest} \<subseteq> P'"
      by blast
    have u: "unprocessed P (enumerate i (g # rest)) = unprocessed P (enumerate (Suc i) rest)"
      using True by (simp add: unprocessed_def)
    have "{i..<i + length (g # rest)} = insert i {Suc i..<Suc i + length rest}"
      by auto
    then have "{i..<i + length (g # rest)} \<subseteq> P'"
      using P'(2,3) True by auto
    then show ?thesis
      using P' u by (simp add: merge_step_processed [OF True])
  next
    case False
    let ?E = "enumerate (Suc i) rest"
    let ?P1 = "P \<union> insert i (fst ` set (filter (\<lambda>(j, g2). j \<notin> P \<and> sim g g2) ?E))"
    let ?m1 = "merged @ [group_leader g (filter (sim g) (unprocessed P ?E))]"
    from Cons.IH [OF rest, of ?m1 ?P1] obtain P' where
      P': "for_each (merge_step sim genres) ?E (?m1, ?P1)
             = Inr (?m1 @ star_merge sim (unprocessed ?P1 ?E), P')"
          "?P1 \<subseteq> P'" "{Suc i..<Suc i + length rest} \<subseteq> P'"
      by blast
    have u: "unprocessed P (enumerate i (g # rest)) = g # unprocessed P ?E"
      using False by (simp add: unprocessed_def)
    have after: "unprocessed ?P1 ?E = filter (\<lambda>h. \<not> sim g h) (unprocessed P ?E)"
      by (rule unprocessed_after_group [OF refl])
    have "{i..<i + length (g # rest)} = insert i {Suc i..<Suc i + length rest}"
      by auto
    then have "{i..<i + length (g # rest)} \<subseteq> P'"
      using P'(2,3) by auto
    moreover have "P \<subseteq> P'" using P'(2) by blast
    ultimately show ?thesis
      using P'(1) u after by (simp add: merge_step_leader [OF False rest])
  qed
qed

lemma merge_duplicates_star:
  "merge_duplicates jellyfish threshold genres
   = Inr (star_merge (are_similar jellyfish threshold) genres)"
proof -
  let ?sim = "are_similar jellyfish threshold"
  from merge_loop [of 0 genres genres ?sim "[]" "{}"] obtain P' where
    P': "for_each (merge_step ?sim genres) (enumerate 0 genres) ([], {})
           = Inr (star_merge ?sim (unprocessed {} (enumerate 0 genres)), P')"
        "{0..<length genres} \<subseteq> P'"
    by auto
  have all: "unprocessed {} (enumerate 0 genres) = genres"
    by (simp add: unprocessed_def)
  have none: "filter (\<lambda>(i, g). i \<notin> P') (enumerate 0 genres) = []"
    using P'(2) by (auto simp: filter_empty_conv in_set_enumerate_eq)
  show ?thesis
    using P'(1) all none by (simp add: merge_duplicates_def)
qed

lemma star_merge_names:
  "y \<in> set (star_merge sim xs) \<Longrightarrow> \<exists>x \<in> set xs. name y = name x"
proof (induction sim xs rule: star_merge.induct)
  case (1 similar)
  then show ?case by simp
next
  case (2 similar g gs)
  then show ?case by (auto simp: group_leader_name)
qed

lemma star_merge_separated:
  "(\<And>a b a' b'. name a = name a' \<Longrightarrow> name b = name b' \<Longrightarrow> sim a b = sim a' b')
   \<Longrightarrow> sorted_wrt (\<lambda>a b. \<not> sim a b) (star_merge sim xs)"
proof (induction sim xs rule: star_merge.induct)
  case (1 similar)
  show ?case by simp
next
  case (2 similar g gs)
  note names = "2.prems"
  have "\<not> similar (group_leader g (filter (similar g) gs)) y"
    if "y \<in> set (star_merge similar (filter (\<lambda>h. \<not> similar g h) gs))" for y
  proof -
    from star_merge_names [OF that] obtain x where
      x: "x \<in> set gs" "\<not> similar g x" "name y = name x" by auto
    have "similar (group_leader g (filter (similar g) gs)) y = similar g x"
      by (rule names) (simp_all add: group_leader_name x(3))
    with x(2) show ?thesis by simp
  qed
  moreover have "sorted_wrt (\<lambda>a b. \<not> similar a b)
                   (star_merge similar (filter (\<lambda>h. \<not> similar g h) gs))"
    by (rule "2.IH") (rule names)
  ultimately show ?case by simp
qed

lemma star_merge_fixed:
  "sorted_wrt (\<lambda>a b. \<not> sim a b) ys \<Longrightarrow> star_merge sim ys = ys"
proof (induction ys)
  case Nil
  then show ?case by simp
next
  case (Cons y ys)
  then have none: "filter (sim y) ys = []" and all: "filter (\<lambda>h. \<not> sim y h) ys = ys"
    by (auto simp: filter_empty_conv filter_id_conv)
  then show ?case using Cons by (simp add: group_leader_def)
qed

lemma are_similar_names:
  "name a = name a' \<Longrightarrow> name b = name b'
   \<Longrightarrow> are_similar jellyfish threshold a b = are_similar jellyfish threshold a' b'"
  by (cases jellyfish) (simp_all add: are_similar_def)

text \<open>
  C2. \<open>merge_duplicates\<close> returns for every entry list, and applied to its own result it
  returns that result unchanged. The \<open>jellyfish\<close> module (present or not) and the
  threshold are the same in both runs.
\<close>

theorem merge_duplicates_idempotent:
  "\<exists>ys. merge_duplicates jellyfish threshold xs = Inr ys
        \<and> merge_duplicates jellyfish threshold ys = Inr ys"
proof -
  let ?sim = "are_similar jellyfish threshold"
  have "sorted_wrt (\<lambda>a b. \<not> ?sim a b) (star_merge ?sim xs)"
    by (rule star_merge_separated) (rule are_similar_names)
  then have "star_merge ?sim (star_merge ?sim xs) = star_merge ?sim xs"
    by (rule star_merge_fixed)
  then show ?thesis
    by (simp add: merge_duplicates_star)
qed

text \<open>Four entries, two of them variants of the first: the second run changes nothing.\<close>

theorem merge_duplicates_idempotent_witness:
  "\<exists>ys. merge_duplicates None (17 / 20)
           [sample_entry 1 ''UK Hip-Hop'' ''s1'', sample_entry 2 ''Jazz'' ''s2'',
            sample_entry 3 ''British Hip-Hop'' ''s3'', sample_entry 4 ''uk hip-hop'' ''s4'']
         = Inr ys
       \<and> merge_duplicates None (17 / 20) ys = Inr ys"
  by (rule merge_duplicates_idempotent)

section \<open>Building the hierarchy\<close>

lemma add_combo_raises:
  "add_combo enrich combo st = Inl (AttributeError ''_determine_parent'')"
  by (simp add: add_combo_def determine_parent_def)

lemma for_each_add_combo_raises:
  "combos \<noteq> [] \<Longrightarrow> for_each (add_combo enrich) combos st = Inl (AttributeError ''_determine_parent'')"
  by (cases combos) (simp_all add: add_combo_raises)

lemma sort_key_nonempty: "xs \<noteq> [] \<Longrightarrow> sort_key f xs \<noteq> []"
  by (metis length_sort length_0_conv)

lemma for_each_seed_main_total:
  "(\<And>n. \<exists>md. enrich n ''main'' = Inr md)
   \<Longrightarrow> \<exists>st'. for_each (seed_main enrich) names st = Inr st'"
proof (induction names arbitrary: st)
  case Nil
  then show ?case by simp
next
  case (Cons n names)
  from Cons.prems obtain md where md: "enrich n ''main'' = Inr md" by blast
  then obtain st1 where "seed_main enrich n st = Inr st1"
    by (simp add: seed_main_def get_next_id_def Let_def)
  then show ?case using Cons.IH [OF Cons.prems] by simp
qed

lemma build_hierarchy_attribute_error:
  assumes "combos \<noteq> []" and "\<And>n. \<exists>md. enrich n ''main'' = Inr md"
  shows "build_hierarchy enrich id_counter combos = Inl (AttributeError ''_determine_parent'')"
proof -
  from for_each_seed_main_total [of enrich main_genres, OF assms(2)]
  obtain st where "for_each (seed_main enrich) main_genres
             \<lparr>b_genres = [], b_parent_map = Map.empty, b_level_map = Map.empty,
              b_id_counter = id_counter\<rparr> = Inr st" by blast
  then show ?thesis
    using assms(1)
    by (simp add: build_hierarchy_def Let_def for_each_add_combo_raises sort_key_nonempty)
qed

text \<open>
  C1. The claim is that \<open>build_hierarchy\<close> completes for every candidate list and every
  attribute function. The loop over the candidates calls \<open>self._determine_parent\<close>,
  which no class of the file defines: for every non-empty candidate list and every
  attribute function the call ends in an exception (\<open>AttributeError\<close> when the
  attribute function got through the root categories, its own exception otherwise)
  and returns no entries.
\<close>

theorem build_hierarchy_raises:
  "combos \<noteq> [] \<Longrightarrow> \<exists>e. build_hierarchy enrich id_counter combos = Inl e"
proof -
  assume ne: "combos \<noteq> []"
  show ?thesis
  proof (cases "for_each (seed_main enrich) main_genres
             \<lparr>b_genres = [], b_parent_map = Map.empty, b_level_map = Map.empty,
              b_id_counter = id_counter\<rparr>")
    case (Inl e)
    then show ?thesis by (simp add: build_hierarchy_def)
  next
    case (Inr st)
    then show ?thesis
      using ne
      by (simp add: build_hierarchy_def Let_def for_each_add_combo_raises sort_key_nonempty)
  qed
qed

text \<open>One well-formed candidate and an attribute function that never fails.\<close>

theorem build_hierarchy_raises_witness:
  "\<exists>e. build_hierarchy (\<lambda>n t. Inr sample_metadata) 1
         [\<lparr>cand_name = ''Dark Jazz'', cand_type = ''mood_genre'',
           components = [''Dark'', ''Jazz'']\<rparr>]
       = Inl e"
  by (rule build_hierarchy_raises) simp

text \<open>
  The exception at that input is the missing attribute; with no candidate at all the
  twenty root categories are returned.
\<close>

lemma build_hierarchy_dark_jazz:
  "build_hierarchy (\<lambda>n t. Inr sample_metadata) 1
     [\<lparr>cand_name = ''Dark Jazz'', cand_type = ''mood_genre'',
       components = [''Dark'', ''Jazz'']\<rparr>]
   = Inl (AttributeError ''_determine_parent'')"
  by (rule build_hierarchy_attribute_error) simp_all

lemma build_hierarchy_empty:
  "\<exists>gs. build_hierarchy (\<lambda>n t. Inr sample_metadata) 1 [] = Inr (gs, 21) \<and> length gs = 20"
  by (simp add: build_hierarchy_def main_genres_def seed_main_def get_next_id_def Let_def)

section \<open>Generating candidates\<close>

text \<open>
  C4. The claim is that \<open>generate_combinations\<close> never returns more than \<open>limit\<close>
  candidates, for every \<open>limit\<close> from 0 on. Strategy 1 tests \<open>limit\<close> only after it
  has appended a candidate: with the default vocabularies and \<open>limit = 0\<close> the call
  returns the first regional fusion, one candidate more than the limit, whatever the
  random source.
\<close>

theorem generate_combinations_limit_zero:
  "generate_combinations rs default_data_sources 0 r =
     Inr ([\<lparr>cand_name = ''USA UK Fusion'', cand_type = ''regional_fusion'',
            components = [''USA'', ''UK'', ''Blues'']\<rparr>], r)"
  by (simp add: generate_combinations_def regional_fusions_def default_data_sources_def
      regional_fusion_patterns_def py_len_def)

text \<open>
  From \<open>limit = 1\<close> on the bound holds, for every vocabulary and every random source:
  strategy 1 returns as soon as the list has \<open>limit\<close> candidates, the other strategies
  never return early, and the list they leave is cut to \<open>limit\<close>.
\<close>

lemma for_flow_invariant:
  assumes step: "\<And>x s. I s \<Longrightarrow>
            (case body x s of Continue s' \<Rightarrow> I s' | Return r \<Rightarrow> Q r | Raise e \<Rightarrow> True)"
  shows "I s \<Longrightarrow>
         (case for_flow body xs s of Continue s' \<Rightarrow> I s' | Return r \<Rightarrow> Q r | Raise e \<Rightarrow> True)"
proof (induction xs arbitrary: s)
  case Nil
  then show ?case by simp
next
  case (Cons x xs)
  from step [OF Cons.prems, of x] Cons.IH show ?case
    by (cases "body x s") simp_all
qed

lemma regional_fusions_bound:
  assumes "1 \<le> limit"
  shows "case regional_fusions ds limit [] of
           Continue g \<Rightarrow> py_len g < limit
         | Return g \<Rightarrow> py_len g = limit
         | Raise e \<Rightarrow> True"
  unfolding regional_fusions_def
proof (rule for_flow_invariant [where I = "\<lambda>g. py_len g < limit" and Q = "\<lambda>g. py_len g = limit"])
  show "py_len ([] :: candidate list) < limit" using assms by (simp add: py_len_def)
next
  fix x :: "string \<times> string" and s :: "candidate list"
  assume s: "py_len s < limit"
  obtain r1 r2 where x: "x = (r1, r2)" by (cases x)
  have "case for_flow (\<lambda>base.
         for_flow (\<lambda>pattern generated.
           case format_pattern pattern [(''region1'', r1), (''region2'', r2), (''base'', base)] of
             Inl e \<Rightarrow> Raise e
           | Inr n \<Rightarrow>
               (let generated = generated @
                      [\<lparr>cand_name = n, cand_type = ''regional_fusion'',
                        components = [r1, r2, base]\<rparr>]
                in if py_len generated \<ge> limit then Return generated else Continue generated))
         (take 2 regional_fusion_patterns))
       (take 10 (ds_base_genres ds)) s of
          Continue g \<Rightarrow> py_len g < limit | Return g \<Rightarrow> py_len g = limit | Raise e \<Rightarrow> True"
  proof (rule for_flow_invariant [where I = "\<lambda>g. py_len g < limit" and Q = "\<lambda>g. py_len g = limit"])
    show "py_len s < limit" by (rule s)
  next
    fix base :: string and s1 :: "candidate list"
    assume s1: "py_len s1 < limit"
    show "case for_flow (\<lambda>pattern generated.
           case format_pattern pattern [(''region1'', r1), (''region2'', r2), (''base'', base)] of
             Inl e \<Rightarrow> Raise e
           | Inr n \<Rightarrow>
               (let generated = generated @
                      [\<lparr>cand_name = n, cand_type = ''regional_fusion'',
                        components = [r1, r2, base]\<rparr>]
                in if py_len generated \<ge> limit then Return generated else Continue generated))
         (take 2 regional_fusion_patterns) s1 of
          Continue g \<Rightarrow> py_len g < limit | Return g \<Rightarrow> py_len g = limit | Raise e \<Rightarrow> True"
    proof (rule for_flow_invariant [where I = "\<lambda>g. py_len g < limit" and Q = "\<lambda>g. py_len g = limit"])
      show "py_len s1 < limit" by (rule s1)
    next
      fix pattern :: "piece list" and s2 :: "candidate list"
      assume "py_len s2 < limit"
      then show "case (case format_pattern pattern [(''region1'', r1), (''region2'', r2), (''base'', base)] of
             Inl e \<Rightarrow> Raise e
           | Inr n \<Rightarrow>
               (let generated = s2 @
                      [\<lparr>cand_name = n, cand_type = ''regional_fusion'',
                        components = [r1, r2, base]\<rparr>]
                in if py_len generated \<ge> limit then Return generated else Continue generated)) of
          Continue g \<Rightarrow> py_len g < limit | Return g \<Rightarrow> py_len g = limit | Raise e \<Rightarrow> True"
        by (cases "format_pattern pattern [(''region1'', r1), (''region2'', r2), (''base'', base)]")
           (auto simp: py_len_def Let_def)
    qed
  qed
  then show "case (case x of (r1, r2) \<Rightarrow>
       for_flow (\<lambda>base.
         for_flow (\<lambda>pattern generated.
           case format_pattern pattern [(''region1'', r1), (''region2'', r2), (''base'', base)] of
             Inl e \<Rightarrow> Raise e
           | Inr n \<Rightarrow>
               (let generated = generated @
                      [\<lparr>cand_name = n, cand_type = ''regional_fusion'',
                        components = [r1, r2, base]\<rparr>]
                in if py_len generated \<ge> limit then Return generated else Continue generated))
         (take 2 regional_fusion_patterns))
       (take 10 (ds_base_genres ds))) s of
          Continue g \<Rightarrow> py_len g < limit | Return g \<Rightarrow> py_len g = limit | Raise e \<Rightarrow> True"
    using x by simp
qed

lemma for_flow_no_return:
  assumes "\<And>x s. \<forall>r. body x s \<noteq> Return r"
  shows "for_flow body xs s \<noteq> Return r"
proof -
  have "case for_flow body xs s of Continue s' \<Rightarrow> True | Return r \<Rightarrow> False | Raise e \<Rightarrow> True"
  proof (rule for_flow_invariant [where I = "\<lambda>s. True" and Q = "\<lambda>r. False"])
    fix x s
    show "case body x s of Continue s' \<Rightarrow> True | Return r \<Rightarrow> False | Raise e \<Rightarrow> True"
      using assms [of x s] by (cases "body x s") simp_all
  qed simp
  then show ?thesis by (cases "for_flow body xs s") simp_all
qed

lemma era_variants_no_return: "era_variants ds g \<noteq> Return r"
  unfolding era_variants_def
  by (intro for_flow_no_return allI) (simp split: sum.split)

lemma instrument_variants_no_return: "instrument_variants ds g \<noteq> Return r"
  unfolding instrument_variants_def
  by (intro for_flow_no_return allI) (simp split: sum.split list.split)

lemma modifier_variants_no_return: "modifier_variants ds g \<noteq> Return r"
  unfolding modifier_variants_def
proof (intro for_flow_no_return allI)
  fix x s r
  have a: "for_flow (\<lambda>modifier generated.
              Continue (generated @
                [\<lparr>cand_name = modifier @ '' '' @ x, cand_type = ''electronic_variant'',
                  components = [modifier, x]\<rparr>]))
            modifiers_electronic s \<noteq> Return r" for r
    by (intro for_flow_no_return allI) simp
  have b: "for_flow (\<lambda>modifier.
             for_flow (\<lambda>region generated.
               Continue (generated @
                 [\<lparr>cand_name = region @ '' '' @ modifier @ '' '' @ x,
                   cand_type = ''traditional_variant'', components = [region, modifier, x]\<rparr>]))
             (take 10 (ds_regions ds)))
           modifiers_traditional g \<noteq> Return r" for g r
    by (intro for_flow_no_return allI) simp
  show "(case for_flow (\<lambda>modifier generated.
              Continue (generated @
                [\<lparr>cand_name = modifier @ '' '' @ x, cand_type = ''electronic_variant'',
                  components = [modifier, x]\<rparr>]))
            modifiers_electronic s of
         Continue generated \<Rightarrow>
           for_flow (\<lambda>modifier.
             for_flow (\<lambda>region generated.
               Continue (generated @
                 [\<lparr>cand_name = region @ '' '' @ modifier @ '' '' @ x,
                   cand_type = ''traditional_variant'', components = [region, modifier, x]\<rparr>]))
             (take 10 (ds_regions ds)))
           modifiers_traditional generated
       | Return r \<Rightarrow> Return r
       | Raise e \<Rightarrow> Raise e) \<noteq> Return r"
    using a b by (simp split: flow.split)
qed

lemma micro_genre_no_return: "micro_genre rs ds i st \<noteq> Return r"
  by (simp add: micro_genre_def Let_def split: prod.split sum.split)

lemma py_slice_to_bound: "0 \<le> limit \<Longrightarrow> py_len (py_slice_to xs limit) \<le> limit"
  by (simp add: py_slice_to_def py_len_def)

lemma generate_combinations_bound:
  assumes "1 \<le> limit" and "generate_combinations rs ds limit r = Inr (cs, r')"
  shows "py_len cs \<le> limit"
proof -
  note nr = era_variants_no_return instrument_variants_no_return modifier_variants_no_return
  have micro: "for_flow (micro_genre rs ds) xs st \<noteq> Return q" for xs st q
    by (intro for_flow_no_return allI) (rule micro_genre_no_return)
  show ?thesis
  proof (cases "regional_fusions ds limit []")
    case (Return g)
    with regional_fusions_bound [OF assms(1), of ds] assms(2) show ?thesis
      by (simp add: generate_combinations_def)
  next
    case (Raise e)
    with assms(2) show ?thesis by (simp add: generate_combinations_def)
  next
    case (Continue g)
    with assms show ?thesis
      using nr micro py_slice_to_bound [of limit]
      by (auto simp: generate_combinations_def split: flow.splits prod.splits)
  qed
qed

end
